theory Spec2Isabelle
  imports Complex_Main
begin

section \<open>Dates, times and durations\<close>

text \<open>
  A date is its day number (days since 1970-01-01, a Thursday); a time of day has the four
  fields of Python's \<open>datetime.time\<close>; a datetime is a date with a time of day. The
  project runs with \<open>TIME_ZONE = 'UTC'\<close> and \<open>USE_TZ = True\<close>, so the \<open>__date\<close>,
  \<open>__hour\<close> and \<open>__minute\<close> lookups of the ORM read the same fields as \<open>.date()\<close> and
  \<open>.time()\<close> do.
\<close>

type_synonym date = int

record time_of_day =
  hour :: nat
  minute :: nat
  second :: nat
  microsecond :: nat

record datetime =
  date :: date
  time :: time_of_day

text \<open>\<open>date.weekday()\<close>: Monday is 0, Sunday is 6.\<close>

definition weekday :: "date \<Rightarrow> int" where
  "weekday d = (d + 3) mod 7"

text \<open>
  \<open>(wake - sleep)\<close> is a timedelta, held in microseconds; \<open>total_seconds()\<close> divides it
  by \<open>10^6\<close>.
\<close>

definition day_microseconds :: "time_of_day \<Rightarrow> int" where
  "day_microseconds t =
     (int (hour t) * 3600 + int (minute t) * 60 + int (second t)) * 1000000 + int (microsecond t)"

definition timedelta :: "datetime \<Rightarrow> datetime \<Rightarrow> int" where
  "timedelta a b =
     (date a - date b) * 86400000000 + (day_microseconds (time a) - day_microseconds (time b))"

definition total_seconds :: "int \<Rightarrow> rat" where
  "total_seconds td = of_int td / 1000000"

text \<open>
  \<open>round(x, 2)\<close>: the multiple of \<open>1/100\<close> nearest to \<open>x\<close>. The quotient is a binary
  float in the source, so at an exact decimal tie the float lies on one side or the other of
  it; \<open>tie\<close> says for each such quotient whether the result is the upper neighbour.
\<close>

definition py_round2 :: "(rat \<Rightarrow> bool) \<Rightarrow> rat \<Rightarrow> rat" where
  "py_round2 tie x =
     (let y = x * 100; f = \<lfloor>y\<rfloor>; r = y - of_int f
      in (if r < 1 / 2 then of_int f
          else if 1 / 2 < r then of_int (f + 1)
          else if tie x then of_int (f + 1)
          else of_int f) / 100)"

section \<open>The records of \<open>tracker/models.py\<close>\<close>

text \<open>
  Rows carry their primary key and the key of their owner. The \<open>created_at\<close> and
  \<open>updated_at\<close> columns, which the framework maintains and no task reads, are left out, and
  so are the digit limits of the decimal columns.
\<close>

record user_profile =
  notification_enabled :: bool
  google_calendar_enabled :: bool
  timezone :: string

record sleep_session =
  session_id :: nat
  session_user :: nat
  sleep_time :: "datetime option"
  wake_time :: "datetime option"
  quality_rating :: "int option"
  session_notes :: string
  duration_hours :: "rat option"
  synced_to_calendar :: bool
  calendar_event_id :: "string option"

datatype reminder_type = Bedtime | Wake | Log

record sleep_reminder =
  reminder_id :: nat
  reminder_user :: nat
  reminder_kind :: reminder_type
  reminder_time :: time_of_day
  is_active :: bool
  last_sent :: "datetime option"

datatype period_type = Daily | Weekly | Monthly

record sleep_statistics =
  stat_user :: nat
  stat_date :: date
  stat_period :: period_type
  total_sleep_hours :: rat
  average_sleep_hours :: rat
  average_quality :: "rat option"
  sessions_count :: nat
  goal_achievement_rate :: "rat option"

text \<open>
  The store: the user table (primary keys in table order), the one-to-one profiles, and the
  three tables the tasks read and write, each in table order.
\<close>

record store =
  users :: "nat list"
  profiles :: "(nat \<times> user_profile) list"
  sessions :: "sleep_session list"
  reminders :: "sleep_reminder list"
  statistics :: "sleep_statistics list"

subsection \<open>\<open>SleepSession.save\<close>\<close>

text \<open>
  \<open>save\<close> first recomputes the duration when both timestamps are there, then hands the row
  to the framework's \<open>save\<close>, which overwrites the row of that primary key or inserts it.
\<close>

definition compute_duration :: "(rat \<Rightarrow> bool) \<Rightarrow> sleep_session \<Rightarrow> sleep_session" where
  "compute_duration tie s =
     (case (sleep_time s, wake_time s) of
        (Some st, Some wt) \<Rightarrow>
          s\<lparr>duration_hours := Some (py_round2 tie (total_seconds (timedelta wt st) / 3600))\<rparr>
      | _ \<Rightarrow> s)"

definition write_session :: "sleep_session \<Rightarrow> store \<Rightarrow> store" where
  "write_session s db =
     (if list_ex (\<lambda>r. session_id r = session_id s) (sessions db)
      then db\<lparr>sessions := map (\<lambda>r. if session_id r = session_id s then s else r) (sessions db)\<rparr>
      else db\<lparr>sessions := sessions db @ [s]\<rparr>)"

definition SleepSession_save :: "(rat \<Rightarrow> bool) \<Rightarrow> sleep_session \<Rightarrow> store \<Rightarrow> store" where
  "SleepSession_save tie s db = write_session (compute_duration tie s) db"

text \<open>\<open>SleepSession.objects.get(id=...)\<close>, with \<open>None\<close> for \<open>DoesNotExist\<close>.\<close>

definition get_session :: "store \<Rightarrow> nat \<Rightarrow> sleep_session option" where
  "get_session db i = find (\<lambda>r. session_id r = i) (sessions db)"

section \<open>Errors and messages\<close>

text \<open>The exceptions a task can meet, and \<open>str\<close> of a number for the result messages.\<close>

datatype error =
    UnboundLocalError string
  | RelatedObjectDoesNotExist
  | MultipleObjectsReturned
  | AttributeError
  | RemoteError string

fun str_nat :: "nat \<Rightarrow> string" where
  "str_nat n =
     (if n < 10 then [''0123456789'' ! n]
      else str_nat (n div 10) @ [''0123456789'' ! (n mod 10)])"

declare str_nat.simps [simp del]

section \<open>Statistics aggregation (\<open>tracker/tasks.py\<close>)\<close>

text \<open>
  The sessions of one owner whose sleep-start date lies in the window:
  \<open>SleepSession.objects.filter(user=user, sleep_time__date...)\<close>. Only sums and counts of
  the selection are used, so the model keeps table order.
\<close>

definition sessions_in :: "(date \<Rightarrow> bool) \<Rightarrow> nat \<Rightarrow> sleep_session list \<Rightarrow> sleep_session list" where
  "sessions_in window u ss =
     filter (\<lambda>s. session_user s = u \<and> (case sleep_time s of None \<Rightarrow> False | Some t \<Rightarrow> window (date t))) ss"

text \<open>The \<open>defaults\<close> dictionary handed to \<open>update_or_create\<close>.\<close>

record stat_defaults =
  d_total_sleep_hours :: rat
  d_average_sleep_hours :: rat
  d_average_quality :: "rat option"
  d_sessions_count :: nat

text \<open>
  The body of the \<open>if sessions.exists()\<close> branch, which both statistics tasks spell out in
  the same words: \<open>s.duration_hours or 0\<close> reads a missing duration as 0, and the quality
  mean runs over \<open>sessions.filter(quality_rating__isnull=False)\<close>.
\<close>

definition aggregate :: "sleep_session list \<Rightarrow> stat_defaults" where
  "aggregate ss =
     (let total_hours = sum_list (map (\<lambda>s. case duration_hours s of None \<Rightarrow> 0 | Some d \<Rightarrow> d) ss);
          avg_hours = total_hours / of_nat (length ss);
          quality_sessions = filter (\<lambda>s. quality_rating s \<noteq> None) ss;
          avg_quality =
            (if quality_sessions \<noteq> []
             then Some (of_int (sum_list (map (\<lambda>s. the (quality_rating s)) quality_sessions))
                        / of_nat (length quality_sessions))
             else None)
      in \<lparr>d_total_sleep_hours = total_hours, d_average_sleep_hours = avg_hours,
          d_average_quality = avg_quality, d_sessions_count = length ss\<rparr>)"

definition stat_key :: "sleep_statistics \<Rightarrow> nat \<times> date \<times> period_type" where
  "stat_key r = (stat_user r, stat_date r, stat_period r)"

definition apply_defaults :: "stat_defaults \<Rightarrow> sleep_statistics \<Rightarrow> sleep_statistics" where
  "apply_defaults d r =
     r\<lparr>total_sleep_hours := d_total_sleep_hours d, average_sleep_hours := d_average_sleep_hours d,
       average_quality := d_average_quality d, sessions_count := d_sessions_count d\<rparr>"

definition new_statistics :: "nat \<Rightarrow> date \<Rightarrow> period_type \<Rightarrow> stat_defaults \<Rightarrow> sleep_statistics" where
  "new_statistics u d p df =
     \<lparr>stat_user = u, stat_date = d, stat_period = p,
      total_sleep_hours = d_total_sleep_hours df, average_sleep_hours = d_average_sleep_hours df,
      average_quality = d_average_quality df, sessions_count = d_sessions_count df,
      goal_achievement_rate = None\<rparr>"

text \<open>
  \<open>SleepStatistics.objects.update_or_create(user, date, period_type, defaults)\<close>: no row of
  that key inserts one (the fields outside \<open>defaults\<close> at their column defaults), one row is
  updated in the \<open>defaults\<close> fields only, several rows raise.
\<close>

definition update_or_create ::
  "nat \<Rightarrow> date \<Rightarrow> period_type \<Rightarrow> stat_defaults \<Rightarrow> sleep_statistics list
     \<Rightarrow> error + sleep_statistics list" where
  "update_or_create u d p df rows =
     (case filter (\<lambda>r. stat_key r = (u, d, p)) rows of
        [] \<Rightarrow> Inr (rows @ [new_statistics u d p df])
      | [_] \<Rightarrow> Inr (map (\<lambda>r. if stat_key r = (u, d, p) then apply_defaults df r else r) rows)
      | _ \<Rightarrow> Inl MultipleObjectsReturned)"

text \<open>
  The \<open>for user in users\<close> loop, with \<open>stats_created\<close> and the statistics table threaded
  through; an exception ends it and leaves the rows written so far.
\<close>

fun statistics_loop ::
  "period_type \<Rightarrow> date \<Rightarrow> (date \<Rightarrow> bool) \<Rightarrow> sleep_session list \<Rightarrow> nat list \<Rightarrow> nat
     \<Rightarrow> sleep_statistics list \<Rightarrow> (error + nat) \<times> sleep_statistics list" where
  "statistics_loop p anchor window ss [] stats_created rows = (Inr stats_created, rows)"
| "statistics_loop p anchor window ss (user # rest) stats_created rows =
     (let sel = sessions_in window user ss
      in if sel \<noteq> []
         then (case update_or_create user anchor p (aggregate sel) rows of
                 Inl e \<Rightarrow> (Inl e, rows)
               | Inr rows' \<Rightarrow> statistics_loop p anchor window ss rest (stats_created + 1) rows')
         else statistics_loop p anchor window ss rest stats_created rows)"

text \<open>
  \<open>User.objects.filter(sleep_sessions__sleep_time__date...).distinct()\<close>: the users with at
  least one session in the window.
\<close>

definition users_with_sessions :: "(date \<Rightarrow> bool) \<Rightarrow> store \<Rightarrow> nat list" where
  "users_with_sessions window db =
     remdups (filter (\<lambda>u. sessions_in window u (sessions db) \<noteq> []) (users db))"

definition calculate_statistics ::
  "period_type \<Rightarrow> string \<Rightarrow> date \<Rightarrow> (date \<Rightarrow> bool) \<Rightarrow> store \<Rightarrow> (error + string) \<times> store" where
  "calculate_statistics p label anchor window db =
     (case statistics_loop p anchor window (sessions db) (users_with_sessions window db) 0
             (statistics db) of
        (Inl e, rows) \<Rightarrow> (Inl e, db\<lparr>statistics := rows\<rparr>)
      | (Inr n, rows) \<Rightarrow>
          (Inr (''Created/updated '' @ str_nat n @ '' '' @ label @ '' statistics''),
           db\<lparr>statistics := rows\<rparr>))"

text \<open>
  \<open>calculate_daily_statistics\<close>: the window is yesterday, the anchor date yesterday.
  \<open>now\<close> is the reading of \<open>timezone.now()\<close>.
\<close>

definition calculate_daily_statistics :: "datetime \<Rightarrow> store \<Rightarrow> (error + string) \<times> store" where
  "calculate_daily_statistics now db =
     (let yesterday = date now - 1
      in calculate_statistics Daily ''daily'' yesterday (\<lambda>d. d = yesterday) db)"

text \<open>
  \<open>calculate_weekly_statistics\<close>: the window is Monday to Sunday of the current week, the
  anchor date the Monday. (Line 213 of the source writes \<open>;\<close> for the \<open>:\<close> of the
  dictionary entry; the entry is read as the daily task has it.)
\<close>

definition calculate_weekly_statistics :: "datetime \<Rightarrow> store \<Rightarrow> (error + string) \<times> store" where
  "calculate_weekly_statistics now db =
     (let today = date now;
          week_start = today - weekday today;
          week_end = week_start + 6
      in calculate_statistics Weekly ''weekly'' week_start
           (\<lambda>d. week_start \<le> d \<and> d \<le> week_end) db)"

text \<open>\<open>SleepStatistics.objects.get(user=..., date=..., period_type=...)\<close>.\<close>

definition get_statistics ::
  "sleep_statistics list \<Rightarrow> nat \<times> date \<times> period_type \<Rightarrow> sleep_statistics option" where
  "get_statistics rows k = find (\<lambda>r. stat_key r = k) rows"

section \<open>Reminder scheduling (\<open>tracker/tasks.py\<close>)\<close>

text \<open>
  The mails of \<open>EmailNotificationService\<close>, by what the tasks pass to it. A send returns the
  number of mails sent, 0 when sending failed. Whether a send succeeds is not the program's
  to decide: \<open>mailer k mail\<close> is the return value of the send of \<open>mail\<close> when \<open>k\<close> mails
  have been sent before it in the run.
\<close>

record report_statistics =
  avg_hours :: rat
  report_sessions :: nat
  avg_quality :: rat
  goal_achievement :: rat

datatype mail =
    Bedtime_reminder nat time_of_day
  | Wake_reminder nat time_of_day
  | Log_reminder nat
  | Weekly_report nat report_statistics

type_synonym mailer = "nat \<Rightarrow> mail \<Rightarrow> nat"

text \<open>
  A reminder task's log of sends: the mail, the primary key of the reminder it was sent for,
  and what the send returned.
\<close>

record dispatch =
  dispatch_reminder :: nat
  dispatch_mail :: mail
  dispatch_result :: nat

text \<open>\<open>user.profile\<close>: the profile of a user, if there is one.\<close>

definition get_profile :: "store \<Rightarrow> nat \<Rightarrow> user_profile option" where
  "get_profile db u = map_of (profiles db) u"

text \<open>
  The reminders a task selects at the tick \<open>now\<close>: of its kind, active, and with the hour
  and the minute of the current time. (The source spells three of the six lookups with a
  single underscore, \<open>reminder_time_hour\<close> and \<open>reminder_time_minute\<close>; they are read as the
  \<open>__hour\<close> and \<open>__minute\<close> lookups that the first one is.) Every \<open>timezone.now()\<close> of one
  run reads the tick's instant \<open>now\<close>.
\<close>

definition due_reminders :: "reminder_type \<Rightarrow> datetime \<Rightarrow> store \<Rightarrow> sleep_reminder list" where
  "due_reminders kind now db =
     (let current_time = time now
      in filter (\<lambda>r. reminder_kind r = kind \<and> is_active r
                    \<and> hour (reminder_time r) = hour current_time
                    \<and> minute (reminder_time r) = minute current_time) (reminders db))"

text \<open>\<open>reminder.save()\<close> and the lookup of a reminder by primary key.\<close>

definition write_reminder :: "sleep_reminder \<Rightarrow> store \<Rightarrow> store" where
  "write_reminder r db =
     (if list_ex (\<lambda>x. reminder_id x = reminder_id r) (reminders db)
      then db\<lparr>reminders := map (\<lambda>x. if reminder_id x = reminder_id r then r else x) (reminders db)\<rparr>
      else db\<lparr>reminders := reminders db @ [r]\<rparr>)"

definition get_reminder :: "store \<Rightarrow> nat \<Rightarrow> sleep_reminder option" where
  "get_reminder db i = find (\<lambda>r. reminder_id r = i) (reminders db)"

text \<open>
  \<open>send_bedtime_reminders\<close>. The source tests \<open>if result:\<close> at the level of the notification
  check, not under it, so \<open>result\<close> is a variable of the whole loop: unbound until the first
  send (\<open>None\<close>), and left from an earlier reminder when the owner has notifications off.
\<close>

fun bedtime_loop ::
  "mailer \<Rightarrow> datetime \<Rightarrow> sleep_reminder list \<Rightarrow> nat option \<Rightarrow> nat \<Rightarrow> store \<Rightarrow> dispatch list
     \<Rightarrow> (error + nat) \<times> store \<times> dispatch list" where
  "bedtime_loop m now [] result sent_count db outbox = (Inr sent_count, db, outbox)"
| "bedtime_loop m now (reminder # rest) result sent_count db outbox =
     (case get_profile db (reminder_user reminder) of
        None \<Rightarrow> (Inl RelatedObjectDoesNotExist, db, outbox)
      | Some profile \<Rightarrow>
          (let mail = Bedtime_reminder (reminder_user reminder) (reminder_time reminder);
               sent = m (length outbox) mail;
               result' = (if notification_enabled profile then Some sent else result);
               outbox' = (if notification_enabled profile
                       then outbox @ [\<lparr>dispatch_reminder = reminder_id reminder,
                                    dispatch_mail = mail, dispatch_result = sent\<rparr>]
                       else outbox)
           in case result' of
                None \<Rightarrow> (Inl (UnboundLocalError ''result''), db, outbox')
              | Some n \<Rightarrow>
                  if n \<noteq> 0
                  then bedtime_loop m now rest result' (sent_count + 1)
                         (write_reminder (reminder\<lparr>last_sent := Some now\<rparr>) db) outbox'
                  else bedtime_loop m now rest result' sent_count db outbox'))"

definition send_bedtime_reminders ::
  "mailer \<Rightarrow> datetime \<Rightarrow> store \<Rightarrow> (error + string) \<times> store \<times> dispatch list" where
  "send_bedtime_reminders m now db =
     (case bedtime_loop m now (due_reminders Bedtime now db) None 0 db [] of
        (Inl e, db', outbox) \<Rightarrow> (Inl e, db', outbox)
      | (Inr n, db', outbox) \<Rightarrow> (Inr (''Sent '' @ str_nat n @ '' bedtime reminders''), db', outbox))"



text \<open>
  \<open>send_log_reminders\<close>: under the notification check, the owner's sessions with sleep-start
  date yesterday are looked up, and the mail is sent only when there is none.
\<close>

definition has_logged :: "store \<Rightarrow> nat \<Rightarrow> date \<Rightarrow> bool" where
  "has_logged db u yesterday =
     list_ex (\<lambda>s. session_user s = u
                 \<and> (case sleep_time s of None \<Rightarrow> False | Some t \<Rightarrow> date t = yesterday))
       (sessions db)"



section \<open>Weekly reports (\<open>tracker/tasks.py\<close>)\<close>

text \<open>
  The \<open>statistics\<close> dictionary of a row; \<open>float(x) if x else 0\<close> reads a missing value as 0.
\<close>

definition report_of :: "sleep_statistics \<Rightarrow> report_statistics" where
  "report_of stat =
     \<lparr>avg_hours = average_sleep_hours stat,
      report_sessions = sessions_count stat,
      avg_quality = (case average_quality stat of None \<Rightarrow> 0 | Some q \<Rightarrow> q),
      goal_achievement = (case goal_achievement_rate stat of None \<Rightarrow> 0 | Some g \<Rightarrow> g)\<rparr>"




section \<open>Calendar sync (\<open>tracker/google_calendar.py\<close>, \<open>tracker/tasks.py\<close>)\<close>

text \<open>
  The remote calendar is not the program's: what it answers to one sync is given as
  \<open>remote\<close>. \<open>get_service\<close> returns a service, returns \<open>None\<close> (the build met an
  \<open>HttpError\<close>) or raises (no credentials file, a failed authorisation); \<open>execute()\<close>
  returns the event, whose \<open>id\<close> may be missing, or raises \<open>HttpError\<close> or something else.
  A sync reports the changes it made to the remote calendar. The credential text of the
  profile, which \<open>get_service\<close> may refresh, is not part of the model.
\<close>

record calendar_event =
  event_hours :: "rat option"
  event_quality :: "int option"
  event_notes :: string
  event_start :: datetime
  event_end :: datetime
  event_time_zone :: string

datatype service_outcome = Service_ready | Service_none | Service_raises string

datatype execute_outcome = Event_result "string option" | Raises_HttpError | Raises_other string

record remote =
  get_service :: service_outcome
  execute :: execute_outcome

datatype remote_change = Inserted calendar_event "string option" | Updated string calendar_event

text \<open>
  The event dictionary both methods build. The quality is shown when the rating is truthy;
  \<open>isoformat()\<close> of a missing timestamp raises \<open>AttributeError\<close>, which is no
  \<open>HttpError\<close> and leaves the method.
\<close>

definition event_body :: "user_profile \<Rightarrow> sleep_session \<Rightarrow> error + calendar_event" where
  "event_body profile s =
     (case (sleep_time s, wake_time s) of
        (Some st, Some wt) \<Rightarrow>
          Inr \<lparr>event_hours = duration_hours s,
               event_quality = (case quality_rating s of
                                  None \<Rightarrow> None
                                | Some q \<Rightarrow> if q \<noteq> 0 then Some q else None),
               event_notes = session_notes s,
               event_start = st, event_end = wt,
               event_time_zone = timezone profile\<rparr>
      | _ \<Rightarrow> Inl AttributeError)"

definition create_sleep_event ::
  "remote \<Rightarrow> user_profile \<Rightarrow> sleep_session \<Rightarrow> (error + string option) \<times> remote_change list" where
  "create_sleep_event remote profile s =
     (case get_service remote of
        Service_raises msg \<Rightarrow> (Inl (RemoteError msg), [])
      | Service_none \<Rightarrow> (Inr None, [])
      | Service_ready \<Rightarrow>
          (case event_body profile s of
             Inl e \<Rightarrow> (Inl e, [])
           | Inr event \<Rightarrow>
               (case execute remote of
                  Event_result event_id \<Rightarrow> (Inr event_id, [Inserted event event_id])
                | Raises_HttpError \<Rightarrow> (Inr None, [])
                | Raises_other msg \<Rightarrow> (Inl (RemoteError msg), []))))"

definition update_sleep_event ::
  "remote \<Rightarrow> user_profile \<Rightarrow> string \<Rightarrow> sleep_session
     \<Rightarrow> (error + string option) \<times> remote_change list" where
  "update_sleep_event remote profile event_id s =
     (case get_service remote of
        Service_raises msg \<Rightarrow> (Inl (RemoteError msg), [])
      | Service_none \<Rightarrow> (Inr None, [])
      | Service_ready \<Rightarrow>
          (case event_body profile s of
             Inl e \<Rightarrow> (Inl e, [])
           | Inr event \<Rightarrow>
               (case execute remote of
                  Event_result new_id \<Rightarrow> (Inr new_id, [Updated event_id event])
                | Raises_HttpError \<Rightarrow> (Inr None, [])
                | Raises_other msg \<Rightarrow> (Inl (RemoteError msg), []))))"

text \<open>
  Truth of an optional string, \<open>str\<close> of it in an f-string, and \<open>str(e)\<close> (the wording of
  the interpreter's own messages is approximate; no property reads it).
\<close>

definition truthy :: "string option \<Rightarrow> bool" where
  "truthy x = (case x of None \<Rightarrow> False | Some v \<Rightarrow> v \<noteq> [])"

definition str_opt :: "string option \<Rightarrow> string" where
  "str_opt x = (case x of None \<Rightarrow> ''None'' | Some v \<Rightarrow> v)"

fun str_error :: "error \<Rightarrow> string" where
  "str_error (UnboundLocalError v) = ''local variable '' @ v @ '' referenced before assignment''"
| "str_error RelatedObjectDoesNotExist = ''User has no profile.''"
| "str_error MultipleObjectsReturned = ''get() returned more than one row''"
| "str_error AttributeError = ''NoneType object has no attribute isoformat''"
| "str_error (RemoteError msg) = msg"

text \<open>
  \<open>sync_sleep_to_calendar\<close>: the message it returns, the store and the remote changes. Every
  exception inside it is caught and turned into a message.
\<close>

definition sync_sleep_to_calendar ::
  "(rat \<Rightarrow> bool) \<Rightarrow> remote \<Rightarrow> nat \<Rightarrow> store \<Rightarrow> string \<times> store \<times> remote_change list" where
  "sync_sleep_to_calendar tie remote sleep_session_id db =
     (case get_session db sleep_session_id of
        None \<Rightarrow> (''Sleep session '' @ str_nat sleep_session_id @ '' not found'', db, [])
      | Some sleep_session \<Rightarrow>
          (case get_profile db (session_user sleep_session) of
             None \<Rightarrow>
               (''Error syncing to calendar: '' @ str_error RelatedObjectDoesNotExist, db, [])
           | Some user_profile \<Rightarrow>
               if \<not> google_calendar_enabled user_profile
               then (''Google Calendar not enabled for this user'', db, [])
               else if synced_to_calendar sleep_session
                       \<and> truthy (calendar_event_id sleep_session)
               then (case update_sleep_event remote user_profile
                            (str_opt (calendar_event_id sleep_session)) sleep_session of
                       (Inl e, changes) \<Rightarrow>
                         (''Error syncing to calendar: '' @ str_error e, db, changes)
                     | (Inr event_id, changes) \<Rightarrow>
                         (''Updated calendar event: '' @ str_opt event_id, db, changes))
               else (case create_sleep_event remote user_profile sleep_session of
                       (Inl e, changes) \<Rightarrow>
                         (''Error syncing to calendar: '' @ str_error e, db, changes)
                     | (Inr event_id, changes) \<Rightarrow>
                         if truthy event_id
                         then (''Created calendar event: '' @ str_opt event_id,
                               SleepSession_save tie
                                 (sleep_session\<lparr>calendar_event_id := event_id,
                                                synced_to_calendar := True\<rparr>) db,
                               changes)
                         else (''Failed to sync to calendar'', db, changes))))"

section \<open>Notions the properties are stated with\<close>

text \<open>
  Under the uniqueness constraint of the statistics table, \<open>update_or_create\<close> is this
  total function: overwrite the row of the key, or append a new one.
\<close>

definition upsert ::
  "nat \<times> date \<times> period_type \<Rightarrow> stat_defaults \<Rightarrow> sleep_statistics list \<Rightarrow> sleep_statistics list" where
  "upsert k df rows =
     (if k \<in> stat_key ` set rows
      then map (\<lambda>r. if stat_key r = k then apply_defaults df r else r) rows
      else rows @ [new_statistics (fst k) (fst (snd k)) (snd (snd k)) df])"

primrec upsert_all ::
  "period_type \<Rightarrow> date \<Rightarrow> (date \<Rightarrow> bool) \<Rightarrow> sleep_session list \<Rightarrow> nat list
     \<Rightarrow> sleep_statistics list \<Rightarrow> sleep_statistics list" where
  "upsert_all p a w ss [] rows = rows"
| "upsert_all p a w ss (u # us) rows =
     upsert_all p a w ss us
       (if sessions_in w u ss \<noteq> [] then upsert (u, a, p) (aggregate (sessions_in w u ss)) rows
        else rows)"

definition touched :: "(date \<Rightarrow> bool) \<Rightarrow> sleep_session list \<Rightarrow> nat list \<Rightarrow> nat \<Rightarrow> bool" where
  "touched w ss us u \<longleftrightarrow> u \<in> set us \<and> sessions_in w u ss \<noteq> []"


definition week_start :: "datetime \<Rightarrow> date" where
  "week_start now = date now - weekday (date now)"







text \<open>
  Whether the owner of a statistics row has notifications on, and the dictionary that
  \<open>send_weekly_reports\<close> holds after the rows \<open>rows\<close>: the one of the last row whose owner
  has notifications on, or what it held before them.
\<close>

definition owner_enabled :: "store \<Rightarrow> sleep_statistics \<Rightarrow> bool" where
  "owner_enabled db r =
     (case get_profile db (stat_user r) of None \<Rightarrow> False | Some p \<Rightarrow> notification_enabled p)"

definition last_report ::
  "store \<Rightarrow> report_statistics option \<Rightarrow> sleep_statistics list \<Rightarrow> report_statistics option" where
  "last_report db carry rows =
     (case filter (owner_enabled db) rows of
        [] \<Rightarrow> carry
      | r # rs \<Rightarrow> Some (report_of (last (r # rs))))"

section \<open>Example data\<close>

definition instant :: "date \<Rightarrow> nat \<Rightarrow> nat \<Rightarrow> datetime" where
  "instant d h m = \<lparr>date = d, time = \<lparr>hour = h, minute = m, second = 0, microsecond = 0\<rparr>\<rparr>"

definition example_session ::
  "nat \<Rightarrow> nat \<Rightarrow> datetime \<Rightarrow> datetime \<Rightarrow> rat \<Rightarrow> int option \<Rightarrow> sleep_session" where
  "example_session i u st wt d q =
     \<lparr>session_id = i, session_user = u, sleep_time = Some st, wake_time = Some wt,
      quality_rating = q, session_notes = [], duration_hours = Some d,
      synced_to_calendar = False, calendar_event_id = None\<rparr>"

definition example_reminder :: "nat \<Rightarrow> nat \<Rightarrow> reminder_type \<Rightarrow> nat \<Rightarrow> nat \<Rightarrow> sleep_reminder" where
  "example_reminder i u k h m =
     \<lparr>reminder_id = i, reminder_user = u, reminder_kind = k,
      reminder_time = \<lparr>hour = h, minute = m, second = 0, microsecond = 0\<rparr>,
      is_active = True, last_sent = None\<rparr>"

definition example_statistics :: "nat \<Rightarrow> date \<Rightarrow> period_type \<Rightarrow> rat option \<Rightarrow> sleep_statistics" where
  "example_statistics u d p g =
     \<lparr>stat_user = u, stat_date = d, stat_period = p, total_sleep_hours = 50,
      average_sleep_hours = 25 / 3, average_quality = Some 4, sessions_count = 6,
      goal_achievement_rate = g\<rparr>"

text \<open>
  Day 19001 is a Sunday; its week starts on day 18995 and the week before on day 18988.
  User 1 has notifications and the calendar on, user 2 has both off, user 3 has notifications
  on. User 1 slept three times on day 19000: 7.5, 8 and 6.5 hours, rated 3, not rated, and
  rated 5. All reminders are set for 22:00.
\<close>

definition example_store :: store where
  "example_store =
     \<lparr>users = [1, 2, 3],
      profiles =
        [(1, \<lparr>notification_enabled = True, google_calendar_enabled = True, timezone = ''UTC''\<rparr>),
         (2, \<lparr>notification_enabled = False, google_calendar_enabled = False, timezone = ''UTC''\<rparr>),
         (3, \<lparr>notification_enabled = True, google_calendar_enabled = False, timezone = ''UTC''\<rparr>)],
      sessions =
        [example_session 1 1 (instant 19000 0 30) (instant 19000 8 0) (15 / 2) (Some 3),
         example_session 2 1 (instant 19000 8 30) (instant 19000 16 30) 8 None,
         example_session 3 1 (instant 19000 17 0) (instant 19000 23 30) (13 / 2) (Some 5)],
      reminders =
        [example_reminder 1 1 Bedtime 22 0, example_reminder 2 2 Bedtime 22 0,
         example_reminder 3 1 Wake 22 0, example_reminder 4 1 Log 22 0,
         example_reminder 5 3 Log 22 0],
      statistics =
        [example_statistics 1 19000 Daily (Some 80),
         example_statistics 1 18988 Weekly None,
         (example_statistics 2 18988 Weekly None)\<lparr>sessions_count := 2\<rparr>]\<rparr>"


text \<open>The same store with two bedtime reminders, the one of user 2 first.\<close>

definition disabled_first_store :: store where
  "disabled_first_store =
     example_store\<lparr>reminders := [example_reminder 2 2 Bedtime 22 0, example_reminder 1 1 Bedtime 22 0]\<rparr>"

text \<open>
  The same store with session 1 alone, already synced to the remote event \<open>evt1\<close>; and a
  remote calendar that answers a request with the event \<open>evt1\<close>, and one that answers with
  \<open>HttpError\<close>.
\<close>

definition synced_store :: store where
  "synced_store =
     example_store\<lparr>sessions :=
       [(example_session 1 1 (instant 19000 0 30) (instant 19000 8 0) (15 / 2) (Some 3))
          \<lparr>synced_to_calendar := True, calendar_event_id := Some ''evt1''\<rparr>]\<rparr>"

definition answering_remote :: remote where
  "answering_remote = \<lparr>get_service = Service_ready, execute = Event_result (Some ''evt1'')\<rparr>"

definition failing_remote :: remote where
  "failing_remote = \<lparr>get_service = Service_ready, execute = Raises_HttpError\<rparr>"

definition example_now :: datetime where
  "example_now = instant 19001 22 0"

text \<open>A mailer that delivers every mail, and one that delivers none.\<close>

definition delivers :: mailer where
  "delivers k mail = 1"


section \<open>Duration\<close>

lemmas example_defs = example_store_def example_now_def instant_def example_session_def
  example_reminder_def example_statistics_def





lemma get_session_write:
  "get_session (write_session s db) (session_id s) = Some s"
proof (cases "list_ex (\<lambda>r. session_id r = session_id s) (sessions db)")
  case True
  have "find (\<lambda>r. session_id r = i) (map (\<lambda>r. if session_id r = i then s else r) xs) = Some s"
    if "list_ex (\<lambda>r. session_id r = i) xs" "session_id s = i" for xs i
    using that by (induction xs) auto
  with True show ?thesis
    by (simp add: get_session_def write_session_def)
next
  case False
  have "find (\<lambda>r. session_id r = i) (xs @ [s]) = Some s"
    if "\<not> list_ex (\<lambda>r. session_id r = i) xs" "session_id s = i" for xs i
    using that by (induction xs) auto
  with False show ?thesis
    by (simp add: get_session_def write_session_def)
qed



section \<open>Statistics: the upsert\<close>

lemma filter_key_cases:
  "distinct (map f rows) \<Longrightarrow>
     (filter (\<lambda>r. f r = k) rows = [] \<and> k \<notin> f ` set rows)
   \<or> (\<exists>r. filter (\<lambda>r. f r = k) rows = [r] \<and> k \<in> f ` set rows)"
proof (induction rows)
  case Nil
  then show ?case by simp
next
  case (Cons a rows)
  show ?case
  proof (cases "f a = k")
    case True
    with Cons.prems have "k \<notin> f ` set rows" by auto
    then have "filter (\<lambda>r. f r = k) rows = []" by (auto simp: filter_empty_conv)
    with True show ?thesis by simp
  next
    case False
    with Cons show ?thesis by auto
  qed
qed

lemma update_or_create_unique:
  assumes "distinct (map stat_key rows)"
  shows "update_or_create u d p df rows = Inr (upsert (u, d, p) df rows)"
  using filter_key_cases[OF assms, of "(u, d, p)"]
  by (auto simp: update_or_create_def upsert_def)

lemma stat_key_apply_defaults [simp]: "stat_key (apply_defaults df r) = stat_key r"
  by (simp add: stat_key_def apply_defaults_def)

lemma stat_key_new_statistics [simp]: "stat_key (new_statistics u d p df) = (u, d, p)"
  by (simp add: stat_key_def new_statistics_def)

lemma keys_upsert:
  "map stat_key (upsert k df rows) =
     (if k \<in> stat_key ` set rows then map stat_key rows else map stat_key rows @ [k])"
  by (cases k) (auto simp: upsert_def)

lemma distinct_upsert:
  "distinct (map stat_key rows) \<Longrightarrow> distinct (map stat_key (upsert k df rows))"
  by (auto simp: keys_upsert)


lemma distinct_upsert_all:
  "distinct (map stat_key rows) \<Longrightarrow> distinct (map stat_key (upsert_all p a w ss us rows))"
  by (induction us arbitrary: rows) (simp_all add: distinct_upsert)

lemma statistics_loop_unique:
  "distinct (map stat_key rows) \<Longrightarrow>
   statistics_loop p a w ss us c rows =
     (Inr (c + length (filter (\<lambda>u. sessions_in w u ss \<noteq> []) us)), upsert_all p a w ss us rows)"
proof (induction us arbitrary: c rows)
  case Nil
  then show ?case by simp
next
  case (Cons u us)
  show ?case
  proof (cases "sessions_in w u ss \<noteq> []")
    case True
    have d: "distinct (map stat_key (upsert (u, a, p) (aggregate (sessions_in w u ss)) rows))"
      using Cons.prems by (rule distinct_upsert)
    show ?thesis
      using True Cons.IH[OF d] update_or_create_unique[OF Cons.prems]
      by (simp add: Let_def)
  next
    case False
    then show ?thesis using Cons.IH[OF Cons.prems] by (simp add: Let_def)
  qed
qed

lemma find_map_key:
  assumes "\<And>r. f (g r) = f r"
  shows "find (\<lambda>r. f r = k') (map (\<lambda>r. if f r = k then g r else r) rows) =
         (if k' = k then map_option g (find (\<lambda>r. f r = k) rows) else find (\<lambda>r. f r = k') rows)"
  using assms by (induction rows) auto

lemma find_None_key: "find (\<lambda>r. f r = k) rows = None \<longleftrightarrow> k \<notin> f ` set rows"
  by (auto simp: find_None_iff)

lemma get_statistics_upsert:
  "get_statistics (upsert k df rows) k' =
     (if k' = k
      then Some (case get_statistics rows k of
                   None \<Rightarrow> new_statistics (fst k) (fst (snd k)) (snd (snd k)) df
                 | Some r \<Rightarrow> apply_defaults df r)
      else get_statistics rows k')"
proof (cases "k \<in> stat_key ` set rows")
  case True
  then obtain r where r: "find (\<lambda>r. stat_key r = k) rows = Some r"
    using find_None_key[of stat_key k rows] by (cases "find (\<lambda>r. stat_key r = k) rows") auto
  show ?thesis
    using True r
    by (simp add: get_statistics_def upsert_def find_map_key[of stat_key "apply_defaults df"])
next
  case False
  then have n: "find (\<lambda>r. stat_key r = k) rows = None"
    by (simp add: find_None_key)
  have app: "find P (xs @ [y]) = (case find P xs of None \<Rightarrow> (if P y then Some y else None) | Some x \<Rightarrow> Some x)"
    for P and xs :: "sleep_statistics list" and y
    by (induction xs) auto
  show ?thesis
    using False n by (cases k) (auto simp: get_statistics_def upsert_def app split: option.splits)
qed

lemma apply_defaults_idem [simp]: "apply_defaults df (apply_defaults df r) = apply_defaults df r"
  by (simp add: apply_defaults_def)

lemma apply_defaults_new [simp]: "apply_defaults df (new_statistics u d p df) = new_statistics u d p df"
  by (simp add: apply_defaults_def new_statistics_def)

lemma get_statistics_upsert_all:
  "get_statistics (upsert_all p a w ss us rows) (u, d, q) =
     (if touched w ss us u \<and> d = a \<and> q = p
      then Some (case get_statistics rows (u, a, p) of
                   None \<Rightarrow> new_statistics u a p (aggregate (sessions_in w u ss))
                 | Some r \<Rightarrow> apply_defaults (aggregate (sessions_in w u ss)) r)
      else get_statistics rows (u, d, q))"
proof (induction us arbitrary: rows)
  case Nil
  then show ?case by (simp add: touched_def)
next
  case (Cons v us)
  show ?case
    unfolding upsert_all.simps Cons.IH
    by (auto simp: touched_def get_statistics_upsert split: option.splits)
qed


lemma find_Some_key:
  "find (\<lambda>r. f r = k) rows = Some r \<Longrightarrow> r \<in> set rows \<and> f r = k"
  by (induction rows) (auto split: if_splits)

lemma upsert_noop:
  assumes "distinct (map stat_key rows)" and "get_statistics rows k = Some r"
    and "apply_defaults df r = r"
  shows "upsert k df rows = rows"
proof -
  from assms(2) have r: "r \<in> set rows" "stat_key r = k"
    using find_Some_key[of stat_key k rows r] by (simp_all add: get_statistics_def)
  have "x = r" if "x \<in> set rows" "stat_key x = k" for x
    using that r assms(1) by (metis distinct_map inj_onD)
  then have "map (\<lambda>x. if stat_key x = k then apply_defaults df x else x) rows = rows"
    using assms(3) by (intro map_idI) auto
  with r show ?thesis by (auto simp: upsert_def)
qed

lemma upsert_all_noop:
  assumes "distinct (map stat_key rows)"
    and "\<And>u. touched w ss us u \<Longrightarrow>
           \<exists>r. get_statistics rows (u, a, p) = Some r
              \<and> apply_defaults (aggregate (sessions_in w u ss)) r = r"
  shows "upsert_all p a w ss us rows = rows"
  using assms
proof (induction us)
  case Nil
  then show ?case by simp
next
  case (Cons v us)
  have step: "(if sessions_in w v ss \<noteq> []
               then upsert (v, a, p) (aggregate (sessions_in w v ss)) rows else rows) = rows"
  proof (cases "sessions_in w v ss \<noteq> []")
    case True
    then have "touched w ss (v # us) v" by (simp add: touched_def)
    from Cons.prems(2)[OF this] Cons.prems(1) True show ?thesis
      by (auto intro: upsert_noop)
  next
    case False
    then show ?thesis by simp
  qed
  have "upsert_all p a w ss us rows = rows"
  proof (rule Cons.IH[OF Cons.prems(1)])
    fix u assume "touched w ss us u"
    then have "touched w ss (v # us) u" by (simp add: touched_def)
    then show "\<exists>r. get_statistics rows (u, a, p) = Some r
              \<and> apply_defaults (aggregate (sessions_in w u ss)) r = r"
      by (rule Cons.prems(2))
  qed
  with step show ?case by simp
qed

lemma upsert_all_idem:
  assumes "distinct (map stat_key rows)"
  shows "upsert_all p a w ss us (upsert_all p a w ss us rows) = upsert_all p a w ss us rows"
proof (rule upsert_all_noop)
  show "distinct (map stat_key (upsert_all p a w ss us rows))"
    using assms by (rule distinct_upsert_all)
next
  fix u assume "touched w ss us u"
  then show "\<exists>r. get_statistics (upsert_all p a w ss us rows) (u, a, p) = Some r
              \<and> apply_defaults (aggregate (sessions_in w u ss)) r = r"
    by (simp add: get_statistics_upsert_all split: option.splits)
qed

lemma count_key_one:
  assumes "distinct (map stat_key rows)" and "get_statistics rows k = Some r"
  shows "length (filter (\<lambda>r. stat_key r = k) rows) = 1"
proof -
  from assms(2) have "k \<in> stat_key ` set rows"
    using find_Some_key[of stat_key k rows r] by (auto simp: get_statistics_def)
  with filter_key_cases[OF assms(1), of k] show ?thesis by auto
qed

lemma calculate_statistics_unique:
  assumes "distinct (map stat_key (statistics db))"
  shows "calculate_statistics p label a w db =
     (Inr (''Created/updated '' @ str_nat (length (users_with_sessions w db)) @ '' '' @ label @ '' statistics''),
      db\<lparr>statistics := upsert_all p a w (sessions db) (users_with_sessions w db) (statistics db)\<rparr>)"
proof -
  have "filter (\<lambda>u. sessions_in w u (sessions db) \<noteq> []) (users_with_sessions w db)
          = users_with_sessions w db"
    by (auto simp: users_with_sessions_def)
  then show ?thesis
    by (simp add: calculate_statistics_def statistics_loop_unique[OF assms])
qed

lemma touched_users_with_sessions:
  "touched w (sessions db) (users_with_sessions w db) u \<longleftrightarrow>
     u \<in> set (users db) \<and> sessions_in w u (sessions db) \<noteq> []"
  by (auto simp: touched_def users_with_sessions_def)

lemma users_with_sessions_statistics [simp]:
  "users_with_sessions w (db\<lparr>statistics := rows\<rparr>) = users_with_sessions w db"
  by (simp add: users_with_sessions_def)

text \<open>
  C1. With the statistics table unique in (owner, date, period kind), a run of
  \<open>calculate_daily_statistics\<close> succeeds, a second run on the same day over the same
  sessions returns the same message and leaves the store exactly as the first run left it,
  the table is still unique in its key, and every owner with a session yesterday has exactly
  one row keyed (owner, yesterday, daily). The weekly task, the other writer of the table,
  keeps the table unique in its key as well.
\<close>

theorem daily_statistics_idempotent:
  assumes "distinct (map stat_key (statistics db))" and "date now' = date now"
  shows "(\<exists>msg db1.
           calculate_daily_statistics now db = (Inr msg, db1)
         \<and> calculate_daily_statistics now' db1 = (Inr msg, db1)
         \<and> distinct (map stat_key (statistics db1))
         \<and> (\<forall>u \<in> set (users db).
              sessions_in (\<lambda>d. d = date now - 1) u (sessions db) \<noteq> [] \<longrightarrow>
              length (filter (\<lambda>r. stat_key r = (u, date now - 1, Daily)) (statistics db1)) = 1))
       \<and> distinct (map stat_key (statistics (snd (calculate_weekly_statistics now db))))"
proof -
  let ?y = "date now - 1"
  let ?w = "\<lambda>d. d = ?y"
  let ?us = "users_with_sessions ?w db"
  let ?rows = "upsert_all Daily ?y ?w (sessions db) ?us (statistics db)"
  let ?db1 = "db\<lparr>statistics := ?rows\<rparr>"
  have d1: "distinct (map stat_key ?rows)"
    using assms(1) by (rule distinct_upsert_all)
  have run1: "calculate_daily_statistics now db =
      (Inr (''Created/updated '' @ str_nat (length ?us) @ '' '' @ ''daily'' @ '' statistics''), ?db1)"
    unfolding calculate_daily_statistics_def Let_def
    by (rule calculate_statistics_unique[OF assms(1)])
  have d1': "distinct (map stat_key (statistics ?db1))" using d1 by simp
  have run2: "calculate_daily_statistics now' ?db1 =
      (Inr (''Created/updated '' @ str_nat (length ?us) @ '' '' @ ''daily'' @ '' statistics''), ?db1)"
    unfolding calculate_daily_statistics_def Let_def assms(2)
    using calculate_statistics_unique[OF d1', of Daily "''daily''" ?y ?w]
    by (simp add: upsert_all_idem[OF assms(1)])
  have one: "length (filter (\<lambda>r. stat_key r = (u, ?y, Daily)) ?rows) = 1"
    if "u \<in> set (users db)" "sessions_in ?w u (sessions db) \<noteq> []" for u
  proof -
    have "touched ?w (sessions db) ?us u"
      using that by (simp add: touched_users_with_sessions)
    then obtain r where "get_statistics ?rows (u, ?y, Daily) = Some r"
      by (simp add: get_statistics_upsert_all)
    with d1 show ?thesis by (rule count_key_one)
  qed
  have weekly: "distinct (map stat_key (statistics (snd (calculate_weekly_statistics now db))))"
    unfolding calculate_weekly_statistics_def Let_def
    by (simp add: calculate_statistics_unique[OF assms(1)] distinct_upsert_all[OF assms(1)])
  show ?thesis
    using run1 run2 d1 one weekly by auto
qed


theorem daily_statistics_idempotent_witness:
  "distinct (map stat_key (statistics example_store))
   \<and> date (instant 19001 23 59) = date example_now
   \<and> (\<exists>msg db1.
         calculate_daily_statistics example_now example_store = (Inr msg, db1)
       \<and> calculate_daily_statistics (instant 19001 23 59) db1 = (Inr msg, db1)
       \<and> length (filter (\<lambda>r. stat_key r = (1, 19000, Daily)) (statistics db1)) = 1)"
proof -
  have h1: "distinct (map stat_key (statistics example_store))"
    by (simp add: example_defs stat_key_def)
  have h2: "date (instant 19001 23 59) = date example_now"
    by (simp add: example_defs)
  have u: "1 \<in> set (users example_store)"
    by (simp add: example_defs)
  have sel: "sessions_in (\<lambda>d. d = date example_now - 1) 1 (sessions example_store) \<noteq> []"
    by (simp add: example_defs sessions_in_def)
  have y: "date example_now - 1 = 19000"
    by (simp add: example_defs)
  from daily_statistics_idempotent[OF h1 h2] u sel
  show ?thesis
    unfolding y using h1 h2 by blast
qed







lemma goal_apply [simp]: "goal_achievement_rate (apply_defaults df r) = goal_achievement_rate r"
  by (simp add: apply_defaults_def)

lemma goal_new [simp]: "goal_achievement_rate (new_statistics u d p df) = None"
  by (simp add: new_statistics_def)





section \<open>Statistics: quality and the untouched field\<close>









section \<open>Reminders\<close>


lemma get_profile_write [simp]: "get_profile (write_reminder r db) u = get_profile db u"
  by (simp add: get_profile_def write_reminder_def)

lemma sessions_write [simp]: "sessions (write_reminder r db) = sessions db"
  by (simp add: write_reminder_def)













lemma has_logged_write [simp]: "has_logged (write_reminder r db) u d = has_logged db u d"
  by (simp add: has_logged_def)




section \<open>Weekly reports\<close>

lemma last_report_Nil [simp]: "last_report db carry [] = carry"
  by (simp add: last_report_def)







section \<open>Calendar sync\<close>

lemma get_profile_write_session [simp]: "get_profile (write_session s db) u = get_profile db u"
  by (simp add: get_profile_def write_session_def)

lemma get_session_id: "get_session db i = Some s \<Longrightarrow> session_id s = i"
  using find_Some_key[of session_id i "sessions db" s] by (simp add: get_session_def)

lemma compute_duration_fields [simp]:
  "session_id (compute_duration tie s) = session_id s"
  "session_user (compute_duration tie s) = session_user s"
  "synced_to_calendar (compute_duration tie s) = synced_to_calendar s"
  "calendar_event_id (compute_duration tie s) = calendar_event_id s"
  "sleep_time (compute_duration tie s) = sleep_time s"
  "wake_time (compute_duration tie s) = wake_time s"
  by (simp_all add: compute_duration_def split: option.splits)

lemma update_sleep_event_changes:
  "snd (update_sleep_event remote p eid s) = []
   \<or> (\<exists>ev. snd (update_sleep_event remote p eid s) = [Updated eid ev])"
  by (simp add: update_sleep_event_def split: service_outcome.splits sum.splits execute_outcome.splits)

lemma update_sleep_event_ready:
  assumes "get_service remote = Service_ready" and "execute remote = Event_result x"
    and "sleep_time s = Some st" and "wake_time s = Some wt"
  shows "\<exists>ev. update_sleep_event remote p eid s = (Inr x, [Updated eid ev])"
  using assms by (simp add: update_sleep_event_def event_body_def)

lemma sync_synced:
  assumes "get_session db i = Some s" and "synced_to_calendar s" and "calendar_event_id s = Some eid"
    and "eid \<noteq> []"
    and "get_profile db (session_user s) = Some p" and "google_calendar_enabled p"
  shows "\<exists>msg. sync_sleep_to_calendar tie remote i db
           = (msg, db, snd (update_sleep_event remote p eid s))"
  using assms
  by (cases "update_sleep_event remote p eid s"; cases "fst (update_sleep_event remote p eid s)")
     (auto simp: sync_sleep_to_calendar_def truthy_def str_opt_def)

text \<open>
  C2. For a session that is not yet synced, whose owner has the calendar on, and a remote
  calendar that answers the insert with a non-empty event id, \<open>sync_sleep_to_calendar\<close>
  creates exactly one remote event and stores the session with that id and
  \<open>synced_to_calendar\<close> set. Any later sync of the session, whatever the remote answers,
  leaves the store as it is and changes the remote calendar by at most one update of the
  event of the stored id, never by an insert; it is that update when the remote answers.
\<close>

theorem sync_twice:
  assumes "get_session db i = Some s"
    and "\<not> (synced_to_calendar s \<and> truthy (calendar_event_id s))"
    and "get_profile db (session_user s) = Some p" and "google_calendar_enabled p"
    and "sleep_time s = Some st" and "wake_time s = Some wt"
    and "get_service remote = Service_ready" and "execute remote = Event_result (Some eid)"
    and "eid \<noteq> []"
  shows "\<exists>db1 ev s1.
           sync_sleep_to_calendar tie remote i db
             = (''Created calendar event: '' @ eid, db1, [Inserted ev (Some eid)])
         \<and> get_session db1 i = Some s1
         \<and> calendar_event_id s1 = Some eid \<and> synced_to_calendar s1
         \<and> (\<forall>tie2 remote2. \<exists>msg2 changes2.
               sync_sleep_to_calendar tie2 remote2 i db1 = (msg2, db1, changes2)
             \<and> (changes2 = [] \<or> (\<exists>ev2. changes2 = [Updated eid ev2]))
             \<and> (get_service remote2 = Service_ready \<and> (\<exists>x. execute remote2 = Event_result x)
                  \<longrightarrow> (\<exists>ev2. changes2 = [Updated eid ev2])))"
proof -
  let ?s' = "s\<lparr>calendar_event_id := Some eid, synced_to_calendar := True\<rparr>"
  let ?s1 = "compute_duration tie ?s'"
  let ?db1 = "SleepSession_save tie ?s' db"
  from assms(1) have id: "session_id s = i" by (rule get_session_id)
  obtain ev where ev: "event_body p s = Inr ev"
    using assms(5,6) by (simp add: event_body_def)
  have create: "create_sleep_event remote p s = (Inr (Some eid), [Inserted ev (Some eid)])"
    using assms(7,8) ev by (simp add: create_sleep_event_def)
  have first: "sync_sleep_to_calendar tie remote i db
             = (''Created calendar event: '' @ eid, ?db1, [Inserted ev (Some eid)])"
    using assms(1,2,3,4,9) create
    by (auto simp: sync_sleep_to_calendar_def truthy_def str_opt_def)
  have stored: "get_session ?db1 i = Some ?s1"
    using get_session_write[of ?s1 db] by (simp add: SleepSession_save_def id)
  have prof: "get_profile ?db1 (session_user ?s1) = Some p"
    using assms(3) by (simp add: SleepSession_save_def)
  have again: "\<exists>msg2 changes2.
               sync_sleep_to_calendar tie2 remote2 i ?db1 = (msg2, ?db1, changes2)
             \<and> (changes2 = [] \<or> (\<exists>ev2. changes2 = [Updated eid ev2]))
             \<and> (get_service remote2 = Service_ready \<and> (\<exists>x. execute remote2 = Event_result x)
                  \<longrightarrow> (\<exists>ev2. changes2 = [Updated eid ev2]))" for tie2 remote2
  proof -
    from sync_synced[OF stored _ _ assms(9) prof assms(4), of tie2 remote2]
    obtain msg2 where run: "sync_sleep_to_calendar tie2 remote2 i ?db1
           = (msg2, ?db1, snd (update_sleep_event remote2 p eid ?s1))"
      by auto
    have ready: "\<exists>ev2. snd (update_sleep_event remote2 p eid ?s1) = [Updated eid ev2]"
      if "get_service remote2 = Service_ready" "execute remote2 = Event_result x" for x
      using update_sleep_event_ready[OF that, of ?s1 st wt p eid] assms(5,6) by auto
    show ?thesis
      using run update_sleep_event_changes[of remote2 p eid ?s1] ready by blast
  qed
  show ?thesis
    using first stored again by (intro exI[of _ ?db1] exI[of _ ev] exI[of _ ?s1]) simp
qed

theorem sync_twice_witness:
  "get_session example_store 1
     = Some (example_session 1 1 (instant 19000 0 30) (instant 19000 8 0) (15 / 2) (Some 3))
   \<and> \<not> synced_to_calendar (example_session 1 1 (instant 19000 0 30) (instant 19000 8 0) (15 / 2) (Some 3))
   \<and> (\<exists>db1 ev.
         sync_sleep_to_calendar (\<lambda>q. True) answering_remote 1 example_store
           = (''Created calendar event: evt1'', db1, [Inserted ev (Some ''evt1'')])
       \<and> map_option calendar_event_id (get_session db1 1) = Some (Some ''evt1'')
       \<and> (\<exists>msg2 ev2. sync_sleep_to_calendar (\<lambda>q. True) answering_remote 1 db1
                         = (msg2, db1, [Updated ''evt1'' ev2]))
       \<and> (\<exists>msg3. sync_sleep_to_calendar (\<lambda>q. True) failing_remote 1 db1 = (msg3, db1, [])))"
proof -
  let ?s = "example_session 1 1 (instant 19000 0 30) (instant 19000 8 0) (15 / 2) (Some 3)"
  let ?p = "\<lparr>notification_enabled = True, google_calendar_enabled = True, timezone = ''UTC''\<rparr>"
  have h1: "get_session example_store 1 = Some ?s"
    by (simp add: get_session_def example_defs)
  have h2: "\<not> (synced_to_calendar ?s \<and> truthy (calendar_event_id ?s))"
    and u: "\<not> synced_to_calendar ?s"
    by (simp_all add: example_session_def)
  have h3: "get_profile example_store (session_user ?s) = Some ?p"
    by (simp add: get_profile_def example_defs)
  have h4: "google_calendar_enabled ?p" by simp
  have h5: "sleep_time ?s = Some (instant 19000 0 30)"
    and h6: "wake_time ?s = Some (instant 19000 8 0)"
    by (simp_all add: example_session_def)
  have h7: "get_service answering_remote = Service_ready"
    and h8: "execute answering_remote = Event_result (Some ''evt1'')"
    and h9: "''evt1'' \<noteq> []"
    by (simp_all add: answering_remote_def)
  from sync_twice[OF h1 h2 h3 h4 h5 h6 h7 h8 h9, of "\<lambda>q. True"]
  obtain db1 ev s1 where first:
      "sync_sleep_to_calendar (\<lambda>q. True) answering_remote 1 example_store
         = (''Created calendar event: '' @ ''evt1'', db1, [Inserted ev (Some ''evt1'')])"
      "get_session db1 1 = Some s1" "calendar_event_id s1 = Some ''evt1''"
    and again: "\<And>tie2 remote2. \<exists>msg2 changes2.
               sync_sleep_to_calendar tie2 remote2 1 db1 = (msg2, db1, changes2)
             \<and> (changes2 = [] \<or> (\<exists>ev2. changes2 = [Updated ''evt1'' ev2]))
             \<and> (get_service remote2 = Service_ready \<and> (\<exists>x. execute remote2 = Event_result x)
                  \<longrightarrow> (\<exists>ev2. changes2 = [Updated ''evt1'' ev2]))"
    by blast
  from again[of "\<lambda>q. True" answering_remote] h7 h8
  have second: "\<exists>msg2 ev2. sync_sleep_to_calendar (\<lambda>q. True) answering_remote 1 db1
                         = (msg2, db1, [Updated ''evt1'' ev2])"
    by auto
  obtain msg3 changes3 where third:
    "sync_sleep_to_calendar (\<lambda>q. True) failing_remote 1 db1 = (msg3, db1, changes3)"
    "changes3 = [] \<or> (\<exists>ev2. changes3 = [Updated ''evt1'' ev2])"
    using again[of "\<lambda>q. True" failing_remote] by blast
  have nochange: "snd (snd (sync_sleep_to_calendar tie failing_remote i db)) = []" for tie i db
    by (auto simp: sync_sleep_to_calendar_def update_sleep_event_def create_sleep_event_def
        failing_remote_def split: option.splits sum.splits prod.splits)
  from nochange[of "\<lambda>q. True" 1 db1] third(1) have f: "changes3 = []" by simp
  have c: "''Created calendar event: '' @ ''evt1'' = ''Created calendar event: evt1''" by simp
  show ?thesis
    using h1 u first second third(1) unfolding f c by (intro conjI exI[of _ db1] exI[of _ ev]) auto
qed

text \<open>
  C5, the update path. For a synced session and a remote calendar that answers the update
  with \<open>HttpError\<close>, the store is left as it is, but the task returns
  \<open>Updated calendar event: None\<close>, not the failure message of the create path.
\<close>

theorem update_failure_reported_as_updated:
  "get_session synced_store 1 \<noteq> None
   \<and> sync_sleep_to_calendar tie failing_remote 1 synced_store
       = (''Updated calendar event: None'', synced_store, [])"
  by (simp add: sync_sleep_to_calendar_def update_sleep_event_def event_body_def get_session_def
      get_profile_def truthy_def str_opt_def failing_remote_def synced_store_def example_defs)

lemma sync_store_changes_only_on_create:
  assumes "sync_sleep_to_calendar tie remote i db = (msg, db', changes)"
  shows "db' = db \<or> (\<exists>eid. eid \<noteq> [] \<and> msg = ''Created calendar event: '' @ eid)"
  using assms
  by (auto simp: sync_sleep_to_calendar_def truthy_def str_opt_def
      split: option.splits sum.splits prod.splits if_splits)

lemma create_failure_reported:
  "sync_sleep_to_calendar tie failing_remote 1 example_store
       = (''Failed to sync to calendar'', example_store, [])"
  by (simp add: sync_sleep_to_calendar_def create_sleep_event_def event_body_def get_session_def
      get_profile_def truthy_def str_opt_def failing_remote_def example_defs)

section \<open>Further properties\<close>

text \<open>
  In \<open>send_bedtime_reminders\<close> the result of a send outlives its reminder. After a
  successful send for user 1, the reminder of user 2, who has notifications off, is given
  \<open>last_sent\<close> and counted as sent though no mail went out for it; and when that reminder
  comes first the run ends in \<open>UnboundLocalError\<close> before any send.
\<close>

theorem bedtime_stale_result:
  "map_option notification_enabled (get_profile example_store 2) = Some False
   \<and> fst (send_bedtime_reminders delivers example_now example_store)
       = Inr ''Sent 2 bedtime reminders''
   \<and> map dispatch_reminder (snd (snd (send_bedtime_reminders delivers example_now example_store)))
       = [1]
   \<and> get_reminder example_store 2 = Some (example_reminder 2 2 Bedtime 22 0)
   \<and> get_reminder (fst (snd (send_bedtime_reminders delivers example_now example_store))) 2
       = Some ((example_reminder 2 2 Bedtime 22 0)\<lparr>last_sent := Some example_now\<rparr>)
   \<and> send_bedtime_reminders delivers example_now disabled_first_store
       = (Inl (UnboundLocalError ''result''), disabled_first_store, [])"
  by (simp add: send_bedtime_reminders_def Let_def str_nat.simps due_reminders_def get_profile_def
      write_reminder_def get_reminder_def delivers_def disabled_first_store_def example_defs)

text \<open>
  The anchor of the weekly statistics is the Monday of the current week, and the anchor that
  the weekly report reads is the Monday before it.
\<close>

theorem week_anchor_is_monday:
  "weekday (week_start now) = 0
   \<and> week_start now \<le> date now \<and> date now \<le> week_start now + 6
   \<and> weekday (date now - (weekday (date now) + 7)) = 0
   \<and> date now - (weekday (date now) + 7) = week_start now - 7"
  unfolding week_start_def weekday_def by presburger

text \<open>
  A sync against a remote calendar that fails leaves the store as it is, and on the create
  path says so.
\<close>

theorem sync_store_changes_only_on_create_witness:
  "sync_sleep_to_calendar (\<lambda>q. True) failing_remote 1 example_store
     = (''Failed to sync to calendar'', example_store, [])
   \<and> ''Failed to sync to calendar'' \<noteq> ''Created calendar event: '' @ ''evt1''"
proof -
  have run: "sync_sleep_to_calendar (\<lambda>q. True) failing_remote 1 example_store
     = (''Failed to sync to calendar'', snd (sync_sleep_to_calendar (\<lambda>q. True) failing_remote 1 example_store))"
    by (simp add: sync_sleep_to_calendar_def create_sleep_event_def event_body_def get_session_def
      get_profile_def truthy_def str_opt_def failing_remote_def example_defs)
  obtain db' changes where r: "sync_sleep_to_calendar (\<lambda>q. True) failing_remote 1 example_store
     = (''Failed to sync to calendar'', db', changes)"
    using run by (metis prod.collapse)
  have nochange: "changes = []"
    using r by (auto simp: sync_sleep_to_calendar_def update_sleep_event_def create_sleep_event_def
          failing_remote_def split: option.splits sum.splits prod.splits if_splits)
  from sync_store_changes_only_on_create[OF r] have "db' = example_store" by auto
  with r nochange show ?thesis by simp
qed

end
